theory Spec2Isabelle
  imports Complex_Main
begin

section \<open>JavaScript strings\<close>

text \<open>
  A JavaScript string is modelled as a \<^typ>\<open>string\<close>: a list of code units, here the
  code units below 256. Of the characters that the regular expression class
  \<^verbatim>\<open>\s\<close> and \<^verbatim>\<open>String.prototype.trim\<close> treat as white space, these are tab, line feed,
  vertical tab, form feed, carriage return, space and the no-break space.
\<close>

abbreviation LF :: char where "LF \<equiv> CHR 0x0A"
abbreviation TAB :: char where "TAB \<equiv> CHR 0x09"
abbreviation CR :: char where "CR \<equiv> CHR 0x0D"

definition is_space :: "char \<Rightarrow> bool" where
  "is_space c = (c \<in> {CHR 0x09, CHR 0x0A, CHR 0x0B, CHR 0x0C, CHR 0x0D, CHR 0x20, CHR 0xA0})"

definition is_digit :: "char \<Rightarrow> bool" where
  "is_digit c = (48 \<le> (of_char c :: nat) \<and> (of_char c :: nat) \<le> 57)"

definition is_upper :: "char \<Rightarrow> bool" where
  "is_upper c = (65 \<le> (of_char c :: nat) \<and> (of_char c :: nat) \<le> 90)"

definition is_lower :: "char \<Rightarrow> bool" where
  "is_lower c = (97 \<le> (of_char c :: nat) \<and> (of_char c :: nat) \<le> 122)"

text \<open>\<^verbatim>\<open>s.replace(/[p]+/g, r)\<close>: every maximal run of characters of the class \<open>p\<close> becomes \<open>r\<close>.\<close>

function replace_runs :: "(char \<Rightarrow> bool) \<Rightarrow> string \<Rightarrow> string \<Rightarrow> string" where
  "replace_runs p r [] = []"
| "replace_runs p r (c # cs) =
     (if p c then r @ replace_runs p r (dropWhile p cs) else c # replace_runs p r cs)"
  by pat_completeness auto
termination
  by (relation "measure (\<lambda>(p, r, s). length s)") (auto simp: less_Suc_eq_le length_dropWhile_le)

text \<open>\<^verbatim>\<open>s.trim()\<close>\<close>

definition trim :: "string \<Rightarrow> string" where
  "trim s = rev (dropWhile is_space (rev (dropWhile is_space s)))"

text \<open>
  \<^verbatim>\<open>s.substring(start, end)\<close>: both indices are clamped to \<open>[0, length]\<close> and swapped when
  \<open>start > end\<close>.
\<close>

definition substring :: "string \<Rightarrow> int \<Rightarrow> int \<Rightarrow> string" where
  "substring s start end =
     (let len = int (length s);
          finalStart = min (max start 0) len;
          finalEnd = min (max end 0) len;
          from = min finalStart finalEnd;
          to = max finalStart finalEnd
      in take (nat (to - from)) (drop (nat from) s))"

text \<open>
  \<^verbatim>\<open>s.lastIndexOf(searchString, position)\<close>: the greatest index \<open>k\<close> at most
  \<open>min (max position 0) length\<close> at which \<open>searchString\<close> occurs, or \<open>-1\<close>.
\<close>

fun lastIndexFrom :: "string \<Rightarrow> string \<Rightarrow> nat \<Rightarrow> int" where
  "lastIndexFrom s searchString 0 =
     (if take (length searchString) s = searchString then 0 else - 1)"
| "lastIndexFrom s searchString (Suc k) =
     (if take (length searchString) (drop (Suc k) s) = searchString then int (Suc k)
      else lastIndexFrom s searchString k)"

definition lastIndexOf :: "string \<Rightarrow> string \<Rightarrow> int \<Rightarrow> int" where
  "lastIndexOf s searchString position =
     lastIndexFrom s searchString (nat (min (max position 0) (int (length s))))"

subsection \<open>Regular expressions\<close>

text \<open>
  The regular expressions of the source are sequences of literals and of quantified
  character classes in which every quantified class is followed by a character outside
  the class, by an optional part or by nothing. For these the greedy match is the match
  that JavaScript finds, so a matcher returns the length of the greedy match at the start
  of its input, or \<open>None\<close>.
\<close>

type_synonym matcher = "string \<Rightarrow> nat option"

definition lit :: "string \<Rightarrow> matcher" where
  "lit l s = (if take (length l) s = l then Some (length l) else None)"

definition one_of :: "(char \<Rightarrow> bool) \<Rightarrow> matcher" where
  "one_of p s = (case s of [] \<Rightarrow> None | c # _ \<Rightarrow> if p c then Some 1 else None)"

definition plus_of :: "(char \<Rightarrow> bool) \<Rightarrow> matcher" where
  "plus_of p s = (let n = length (takeWhile p s) in if n = 0 then None else Some n)"

definition star_of :: "(char \<Rightarrow> bool) \<Rightarrow> matcher" where
  "star_of p s = Some (length (takeWhile p s))"

definition opt_of :: "(char \<Rightarrow> bool) \<Rightarrow> matcher" where
  "opt_of p s = (case s of [] \<Rightarrow> Some 0 | c # _ \<Rightarrow> Some (if p c then 1 else 0))"

definition seq :: "matcher \<Rightarrow> matcher \<Rightarrow> matcher" where
  "seq m1 m2 s =
     (case m1 s of None \<Rightarrow> None
      | Some n \<Rightarrow> (case m2 (drop n s) of None \<Rightarrow> None | Some k \<Rightarrow> Some (n + k)))"

text \<open>
  \<^verbatim>\<open>^\<close> under the flag \<^verbatim>\<open>m\<close>: the position is the start of the input, or the character
  before it is a line terminator.
\<close>

definition line_start :: "char option \<Rightarrow> bool" where
  "line_start prev = (case prev of None \<Rightarrow> True | Some c \<Rightarrow> c = LF \<or> c = CR)"

definition at_line_start :: "matcher \<Rightarrow> char option \<Rightarrow> matcher" where
  "at_line_start m prev s = (if line_start prev then m s else None)"

text \<open>
  \<^verbatim>\<open>s.replace(/.../g, r)\<close> for a replacement \<open>r\<close> without \<^verbatim>\<open>$\<close>: the input is scanned from
  the left; \<open>prev\<close> is the character before the current position. After a match the scan
  goes on behind it, after an empty match one character further.
\<close>

function regex_replace_all ::
  "(char option \<Rightarrow> matcher) \<Rightarrow> string \<Rightarrow> char option \<Rightarrow> string \<Rightarrow> string" where
  "regex_replace_all m r prev [] = (case m prev [] of None \<Rightarrow> [] | Some _ \<Rightarrow> r)"
| "regex_replace_all m r prev (c # cs) =
     (case m prev (c # cs) of
        None \<Rightarrow> c # regex_replace_all m r (Some c) cs
      | Some 0 \<Rightarrow> r @ c # regex_replace_all m r (Some c) cs
      | Some (Suc n) \<Rightarrow>
          r @ regex_replace_all m r (Some (last (take (Suc n) (c # cs)))) (drop n cs))"
  by pat_completeness auto
termination
  by (relation "measure (\<lambda>(m, r, prev, s). length s)") auto

section \<open>textProcessor\<close>

text \<open>\<^verbatim>\<open>react_template/server/services/textProcessor.js\<close>\<close>

subsection \<open>cleanText\<close>

definition cleanText :: "string \<Rightarrow> string" where
  "cleanText text =
     (if text = [] then []
      else trim
             (filter (\<lambda>c. c \<noteq> CR)
                (replace_runs (\<lambda>c. c = TAB) '' ''
                   (replace_runs (\<lambda>c. c = LF) [LF]
                      (replace_runs is_space '' '' text)))))"

subsection \<open>cleanTranscript\<close>

text \<open>\<^verbatim>\<open>/\[\d+:\d+:\d+\]/\<close>\<close>

definition timestamp_hms :: matcher where
  "timestamp_hms =
     seq (lit ''['') (seq (plus_of is_digit) (seq (lit '':'') (seq (plus_of is_digit)
       (seq (lit '':'') (seq (plus_of is_digit) (lit '']''))))))"

text \<open>\<^verbatim>\<open>/\(\d+:\d+\)/\<close>\<close>

definition timestamp_ms :: matcher where
  "timestamp_ms =
     seq (lit ''('') (seq (plus_of is_digit) (seq (lit '':'') (seq (plus_of is_digit) (lit '')''))))"

text \<open>\<^verbatim>\<open>/^Speaker \d+:?\s*/\<close>\<close>

definition speaker_label :: matcher where
  "speaker_label =
     seq (lit ''Speaker '')
       (seq (plus_of is_digit) (seq (opt_of (\<lambda>c. c = CHR '':'')) (star_of is_space)))"

text \<open>\<^verbatim>\<open>/^[A-Z][a-z]+:?\s*/\<close>\<close>

definition speaker_name :: matcher where
  "speaker_name =
     seq (one_of is_upper)
       (seq (plus_of is_lower) (seq (opt_of (\<lambda>c. c = CHR '':'')) (star_of is_space)))"

text \<open>The fourth replacement of \<^verbatim>\<open>cleanTranscript\<close> (line 35).\<close>

definition strip_speaker_names :: "string \<Rightarrow> string" where
  "strip_speaker_names s = regex_replace_all (at_line_start speaker_name) [] None s"

definition cleanTranscript :: "string \<Rightarrow> string" where
  "cleanTranscript transcript =
     (if transcript = [] then []
      else trim
             (replace_runs (\<lambda>c. c = LF) [LF]
                (replace_runs is_space '' ''
                   (strip_speaker_names
                      (regex_replace_all (at_line_start speaker_label) [] None
                         (regex_replace_all (\<lambda>prev. timestamp_ms) [] None
                            (regex_replace_all (\<lambda>prev. timestamp_hms) [] None transcript)))))))"



subsection \<open>estimateTokenCount\<close>

definition estimateTokenCount :: "string \<Rightarrow> int" where
  "estimateTokenCount text =
     (if text = [] then 0 else \<lceil>real (length text) / 4\<rceil>)"

subsection \<open>chunkText\<close>

text \<open>A chunk; its field \<^verbatim>\<open>text\<close> is \<open>chunk_text\<close> here.\<close>

record chunk =
  chunk_text :: string
  startChar :: int
  endChar :: int

text \<open>
  The end position of the chunk that starts at \<open>startPos\<close> (lines 65 to 85). The loop
  variables \<^verbatim>\<open>startChar\<close> and \<^verbatim>\<open>endChar\<close> of the source are \<open>startPos\<close> and \<open>endPos\<close>
  here, the names \<open>startChar\<close> and \<open>endChar\<close> being the fields of a chunk.
\<close>

definition chunk_end :: "string \<Rightarrow> int \<Rightarrow> int \<Rightarrow> int" where
  "chunk_end text chunkSize startPos =
     (let endPos = startPos + chunkSize
      in if endPos < int (length text) then
           (let paraBreak = lastIndexOf text [LF, LF] endPos;
                sentenceBreak = lastIndexOf text ''. '' endPos
            in if paraBreak > startPos \<and> paraBreak > endPos - 200 then paraBreak + 1
               else if sentenceBreak > startPos \<and> sentenceBreak > endPos - 100
                 then sentenceBreak + 1
               else endPos)
         else int (length text))"

text \<open>
  The \<^verbatim>\<open>while\<close> loop (lines 63 to 104). The source gives no bound on the number of
  iterations, so the loop is a partial function: \<open>None\<close> is a run that never leaves the loop.
\<close>

partial_function (option) chunk_loop ::
  "string \<Rightarrow> int \<Rightarrow> int \<Rightarrow> int \<Rightarrow> chunk list \<Rightarrow> chunk list option" where
  "chunk_loop text chunkSize overlap startPos chunks =
     (if startPos < int (length text) then
        (let endPos = chunk_end text chunkSize startPos;
             chunkText = trim (substring text startPos endPos);
             chunks' = (if chunkText \<noteq> []
                        then chunks @ [\<lparr>chunk_text = chunkText, startChar = startPos, endChar = endPos\<rparr>]
                        else chunks);
             startPos' = endPos - overlap
         in if startPos' \<ge> int (length text) then Some chunks'
            else chunk_loop text chunkSize overlap startPos' chunks')
      else Some chunks)"

definition chunkText :: "string \<Rightarrow> int \<Rightarrow> int \<Rightarrow> chunk list option" where
  "chunkText text chunkSize overlap =
     (if text = [] then Some []
      else if int (length text) \<le> chunkSize
        then Some [\<lparr>chunk_text = text, startChar = 0, endChar = int (length text)\<rparr>]
      else chunk_loop text chunkSize overlap 0 [])"

section \<open>JavaScript numbers\<close>

text \<open>
  A JavaScript number is an IEEE 754 double: a finite value, an infinity or \<open>NaN\<close>. A finite
  value is the rational number that it stands for; the two zeros are one value here, since
  \<^verbatim>\<open>===\<close> does not tell them apart and \<open>cosineSimilarity\<close> divides only by a product of two
  square roots. Every operation returns the exact result rounded to the nearest double,
  ties to the even significand: 53 bits of significand, exponents from \<open>-1074\<close> on, and an
  infinity for a rounded magnitude of \<open>2^1024\<close> or more.
\<close>

datatype number = Finite rat | PlusInfinity | MinusInfinity | NaN

text \<open>\<open>pow2 k\<close> is \<open>2^k\<close> for an integer \<open>k\<close>.\<close>

definition pow2 :: "int \<Rightarrow> rat" where
  "pow2 k = (if 0 \<le> k then 2 ^ nat k else 1 / 2 ^ nat (- k))"

text \<open>The number of binary digits of a positive integer.\<close>

function bit_length :: "int \<Rightarrow> int" where
  "bit_length n = (if n \<le> 0 then 0 else bit_length (n div 2) + 1)"
  by pat_completeness auto
termination
  by (relation "measure nat") auto

declare bit_length.simps [simp del]

text \<open>For \<open>a > 0\<close>, the integer \<open>k\<close> with \<open>2^k \<le> a < 2^(k+1)\<close>.\<close>

definition floor_log2 :: "rat \<Rightarrow> int" where
  "floor_log2 a =
     (if 1 \<le> a then bit_length \<lfloor>a\<rfloor> - 1 else - bit_length (\<lceil>1 / a\<rceil> - 1))"

definition round_half_even :: "rat \<Rightarrow> int" where
  "round_half_even x =
     (let f = \<lfloor>x\<rfloor>; r = x - of_int f
      in if r < 1 / 2 then f
         else if 1 / 2 < r then f + 1
         else if even f then f else f + 1)"

definition round_magnitude :: "rat \<Rightarrow> rat" where
  "round_magnitude a =
     (let e = max (floor_log2 a - 52) (- 1074)
      in of_int (round_half_even (a / pow2 e)) * pow2 e)"

definition round_double :: "rat \<Rightarrow> number" where
  "round_double x =
     (if x = 0 then Finite 0
      else
        (let r = round_magnitude \<bar>x\<bar>
         in if pow2 1024 \<le> r then (if 0 < x then PlusInfinity else MinusInfinity)
            else Finite (if 0 < x then r else - r)))"

text \<open>The integer square root: the greatest \<open>s\<close> with \<open>s * s \<le> n\<close>.\<close>

function isqrt :: "int \<Rightarrow> int" where
  "isqrt n =
     (if n < 2 then max n 0
      else (let r = 2 * isqrt (n div 4) in if (r + 1) * (r + 1) \<le> n then r + 1 else r))"
  by pat_completeness auto
termination
  by (relation "measure nat") auto

declare isqrt.simps [simp del]

text \<open>
  The correctly rounded square root of \<open>a > 0\<close>: with \<open>b = a / 4^e\<close> and \<open>s\<close> the integer
  square root of \<open>b\<close>, the root of \<open>b\<close> lies below, above or at \<open>s + 1/2\<close> as \<open>b\<close> lies below,
  above or at \<open>s * s + s + 1/4\<close>.
\<close>

definition sqrt_double :: "rat \<Rightarrow> number" where
  "sqrt_double a =
     (let e = floor_log2 a div 2 - 52;
          b = a / pow2 (2 * e);
          s = isqrt \<lfloor>b\<rfloor>;
          half = of_int (s * s + s) + 1 / 4;
          m = (if b < half then s else if half < b then s + 1 else if even s then s else s + 1)
      in Finite (of_int m * pow2 e))"


text \<open>The operators \<^verbatim>\<open>+\<close>, \<^verbatim>\<open>*\<close>, \<^verbatim>\<open>/\<close> and \<^verbatim>\<open>Math.sqrt\<close>.\<close>

definition number_add :: "number \<Rightarrow> number \<Rightarrow> number" where
  "number_add x y =
     (case (x, y) of
        (NaN, _) \<Rightarrow> NaN
      | (_, NaN) \<Rightarrow> NaN
      | (PlusInfinity, MinusInfinity) \<Rightarrow> NaN
      | (MinusInfinity, PlusInfinity) \<Rightarrow> NaN
      | (PlusInfinity, _) \<Rightarrow> PlusInfinity
      | (_, PlusInfinity) \<Rightarrow> PlusInfinity
      | (MinusInfinity, _) \<Rightarrow> MinusInfinity
      | (_, MinusInfinity) \<Rightarrow> MinusInfinity
      | (Finite a, Finite b) \<Rightarrow> round_double (a + b))"

definition signed_infinity :: "bool \<Rightarrow> number" where
  "signed_infinity positive = (if positive then PlusInfinity else MinusInfinity)"

definition number_mul :: "number \<Rightarrow> number \<Rightarrow> number" where
  "number_mul x y =
     (case (x, y) of
        (NaN, _) \<Rightarrow> NaN
      | (_, NaN) \<Rightarrow> NaN
      | (Finite a, Finite b) \<Rightarrow> round_double (a * b)
      | (Finite a, PlusInfinity) \<Rightarrow> (if a = 0 then NaN else signed_infinity (0 < a))
      | (Finite a, MinusInfinity) \<Rightarrow> (if a = 0 then NaN else signed_infinity (a < 0))
      | (PlusInfinity, Finite b) \<Rightarrow> (if b = 0 then NaN else signed_infinity (0 < b))
      | (MinusInfinity, Finite b) \<Rightarrow> (if b = 0 then NaN else signed_infinity (b < 0))
      | (PlusInfinity, PlusInfinity) \<Rightarrow> PlusInfinity
      | (MinusInfinity, MinusInfinity) \<Rightarrow> PlusInfinity
      | (PlusInfinity, MinusInfinity) \<Rightarrow> MinusInfinity
      | (MinusInfinity, PlusInfinity) \<Rightarrow> MinusInfinity)"

definition number_div :: "number \<Rightarrow> number \<Rightarrow> number" where
  "number_div x y =
     (case (x, y) of
        (NaN, _) \<Rightarrow> NaN
      | (_, NaN) \<Rightarrow> NaN
      | (Finite a, Finite b) \<Rightarrow>
          (if b = 0 then (if a = 0 then NaN else signed_infinity (0 < a))
           else round_double (a / b))
      | (Finite a, _) \<Rightarrow> Finite 0
      | (PlusInfinity, Finite b) \<Rightarrow> signed_infinity (0 \<le> b)
      | (MinusInfinity, Finite b) \<Rightarrow> signed_infinity (b < 0)
      | (_, _) \<Rightarrow> NaN)"

definition number_sqrt :: "number \<Rightarrow> number" where
  "number_sqrt x =
     (case x of
        NaN \<Rightarrow> NaN
      | MinusInfinity \<Rightarrow> NaN
      | PlusInfinity \<Rightarrow> PlusInfinity
      | Finite a \<Rightarrow> (if a < 0 then NaN else if a = 0 then Finite 0 else sqrt_double a))"

text \<open>
  The arithmetic that \<open>cosineSimilarity\<close> uses: the literal \<open>0\<close>, the four operations and the
  test \<^verbatim>\<open>x === 0\<close>. \<open>double_arithmetic\<close> is that of JavaScript.
\<close>

record 'n arithmetic =
  num_zero :: 'n
  num_add :: "'n \<Rightarrow> 'n \<Rightarrow> 'n"
  num_mul :: "'n \<Rightarrow> 'n \<Rightarrow> 'n"
  num_div :: "'n \<Rightarrow> 'n \<Rightarrow> 'n"
  num_sqrt :: "'n \<Rightarrow> 'n"
  num_is_zero :: "'n \<Rightarrow> bool"

definition double_arithmetic :: "number arithmetic" where
  "double_arithmetic =
     \<lparr>num_zero = Finite 0, num_add = number_add, num_mul = number_mul, num_div = number_div,
      num_sqrt = number_sqrt, num_is_zero = (\<lambda>x. x = Finite 0)\<rparr>"


section \<open>Errors and external providers\<close>

text \<open>
  A rejected promise or a thrown exception is the left summand of a result. \<open>Error\<close> is
  \<^verbatim>\<open>new Error(message)\<close>; \<open>ContentTooLargeError\<close> is the error of \<^verbatim>\<open>generateEmbeddings\<close>
  whose message gives the estimate and the maximum; \<open>Rejected\<close> is an error that an
  external provider answers with.
\<close>

datatype 'e js_error =
    Error string
  | ContentTooLargeError int int
  | Rejected 'e

record chat_message =
  role :: string
  content :: string

record chat_options =
  temperature :: real
  max_tokens :: int

record chat_request =
  messages :: "chat_message list"
  chat_model :: string
  options :: chat_options

text \<open>
  \<^verbatim>\<open>openaiClient\<close>: \<open>client_set\<close> is \<^verbatim>\<open>isConfigured()\<close>; the two functions are the answers of
  the external provider to \<^verbatim>\<open>createEmbedding(text, model)\<close> and to
  \<^verbatim>\<open>createChatCompletion(messages, model, options)\<close>.
\<close>

record ('e, 'v) openaiClient =
  client_set :: bool
  createEmbedding :: "string \<Rightarrow> string \<Rightarrow> 'e + 'v"
  createChatCompletion :: "chat_request \<Rightarrow> 'e + string"

section \<open>responseGenerator\<close>

text \<open>\<^verbatim>\<open>react_template/server/services/responseGenerator.js\<close>\<close>

text \<open>\<^verbatim>\<open>array.join(separator)\<close>\<close>

fun join :: "string \<Rightarrow> string list \<Rightarrow> string" where
  "join sep [] = []"
| "join sep [x] = x"
| "join sep (x # y # ys) = x @ sep @ join sep (y # ys)"

text \<open>
  \<^verbatim>\<open>s.replace(pattern, replacement)\<close> with a string pattern: the first occurrence is
  replaced, and in the replacement \<^verbatim>\<open>$$\<close> stands for \<^verbatim>\<open>$\<close>, \<^verbatim>\<open>$&\<close> for the matched text,
  \<^verbatim>\<open>$`\<close> for the text before the match and \<^verbatim>\<open>$'\<close> for the text after it.
\<close>

fun get_substitution :: "string \<Rightarrow> string \<Rightarrow> string \<Rightarrow> string \<Rightarrow> string" where
  "get_substitution matched leftPart rightPart (c # d # rest) =
     (if c = CHR ''$'' \<and> d = CHR ''$'' then CHR ''$'' # get_substitution matched leftPart rightPart rest
      else if c = CHR ''$'' \<and> d = CHR ''&'' then matched @ get_substitution matched leftPart rightPart rest
      else if c = CHR ''$'' \<and> d = CHR 0x60 then leftPart @ get_substitution matched leftPart rightPart rest
      else if c = CHR ''$'' \<and> d = CHR 0x27 then rightPart @ get_substitution matched leftPart rightPart rest
      else c # get_substitution matched leftPart rightPart (d # rest))"
| "get_substitution matched leftPart rightPart s = s"

fun split_at_first :: "string \<Rightarrow> string \<Rightarrow> (string \<times> string) option" where
  "split_at_first pat [] = (if pat = [] then Some ([], []) else None)"
| "split_at_first pat (c # cs) =
     (if take (length pat) (c # cs) = pat then Some ([], drop (length pat) (c # cs))
      else map_option (\<lambda>(leftPart, rightPart). (c # leftPart, rightPart)) (split_at_first pat cs))"

definition string_replace :: "string \<Rightarrow> string \<Rightarrow> string \<Rightarrow> string" where
  "string_replace s pat replacement =
     (case split_at_first pat s of
        None \<Rightarrow> s
      | Some (leftPart, rightPart) \<Rightarrow> leftPart @ get_substitution pat leftPart rightPart replacement @ rightPart)"

definition defaultSystemPrompt :: string where
  "defaultSystemPrompt =
     ''You are an AI assistant that provides helpful, accurate, and concise responses. '' @ [LF] @
     ''Use the provided context to answer the user'' @ [CHR 0x27] @ ''s question. '' @ [LF] @
     ''If the context doesn'' @ [CHR 0x27] @ ''t contain relevant information, say that you don'' @ [CHR 0x27] @
     ''t have enough information and suggest what might help.'' @ [LF] @
     ''Don'' @ [CHR 0x27] @ ''t make up information that isn'' @ [CHR 0x27] @ ''t supported by the context.'' @ [LF] @
     ''Always maintain a friendly, helpful tone.''"

definition contextFormat :: string where
  "contextFormat =
     [LF] @ ''----- CONTEXT START -----'' @ [LF] @ ''{context}'' @ [LF] @
     ''----- CONTEXT END -----'' @ [LF]"

text \<open>
  The avatar configuration: a field is \<open>None\<close> when the object has no such key. The object
  is \<^verbatim>\<open>{}\<close> when every field is \<open>None\<close>.
\<close>

record avatarConfig =
  name :: "string option"
  description :: "string option"
  tone :: "string option"
  writingStyle :: "string option"
  knowledgeLevel :: "string option"
  personality :: "string option"
  customInstructions :: "string option"
  model :: "string option"
  cfg_temperature :: "real option"
  maxTokens :: "int option"

text \<open>A string is truthy when it is present and not empty, a number when it is not 0.\<close>

definition truthy :: "string option \<Rightarrow> bool" where
  "truthy v = (case v of None \<Rightarrow> False | Some s \<Rightarrow> s \<noteq> [])"

definition or_else :: "string option \<Rightarrow> string \<Rightarrow> string" where
  "or_else v d = (case v of None \<Rightarrow> d | Some s \<Rightarrow> if s = [] then d else s)"

definition num_or_else :: "'a::zero option \<Rightarrow> 'a \<Rightarrow> 'a" where
  "num_or_else v d = (case v of None \<Rightarrow> d | Some n \<Rightarrow> if n = 0 then d else n)"

definition toLowerCase :: "string \<Rightarrow> string" where
  "toLowerCase s =
     map (\<lambda>c. let n = (of_char c :: nat)
               in if (65 \<le> n \<and> n \<le> 90) \<or> (192 \<le> n \<and> n \<le> 222 \<and> n \<noteq> 215)
                  then char_of (n + 32) else c) s"

definition no_keys :: "avatarConfig \<Rightarrow> bool" where
  "no_keys cfg =
     (name cfg = None \<and> description cfg = None \<and> tone cfg = None \<and> writingStyle cfg = None
      \<and> knowledgeLevel cfg = None \<and> personality cfg = None \<and> customInstructions cfg = None
      \<and> model cfg = None \<and> cfg_temperature cfg = None \<and> maxTokens cfg = None)"

definition context_instructions :: string where
  "context_instructions =
     ''Use the provided context to answer the user'' @ [CHR 0x27] @ ''s question. '' @ [LF] @
     ''If the context doesn'' @ [CHR 0x27] @ ''t contain relevant information, say that you don'' @ [CHR 0x27] @
     ''t have enough information and suggest what might help.'' @ [LF] @
     ''Don'' @ [CHR 0x27] @ ''t make up information that isn'' @ [CHR 0x27] @ ''t supported by the context.'' @ [LF, LF]"

definition buildSystemPrompt :: "avatarConfig \<Rightarrow> string" where
  "buildSystemPrompt cfg =
     (if no_keys cfg then defaultSystemPrompt
      else
        ''You are '' @ or_else (name cfg) ''an AI assistant''
        @ (if truthy (description cfg) then '', '' @ the (description cfg) else [])
        @ ''.'' @ [LF, LF]
        @ (if truthy (tone cfg) then ''Maintain a '' @ the (tone cfg) @ '' tone in your responses. '' else [])
        @ (if truthy (writingStyle cfg) then ''Write in a '' @ the (writingStyle cfg) @ '' style. '' else [])
        @ [LF, LF]
        @ (if truthy (knowledgeLevel cfg) then
             ''Your expertise level is '' @ the (knowledgeLevel cfg) @ ''. ''
             @ (if toLowerCase (the (knowledgeLevel cfg)) = ''expert''
                  then ''Use domain-specific terminology where appropriate. ''
                else if toLowerCase (the (knowledgeLevel cfg)) = ''beginner''
                  then ''Explain concepts in simple terms. ''
                else [])
             @ [LF, LF]
           else [])
        @ (if truthy (personality cfg) then
             ''Your personality traits include: '' @ the (personality cfg)
             @ ''. Reflect these traits in your responses.'' @ [LF, LF]
           else [])
        @ context_instructions
        @ (if truthy (customInstructions cfg) then the (customInstructions cfg) @ [LF, LF] else []))"

text \<open>The context section that \<^verbatim>\<open>generateResponse\<close> appends to the system prompt (lines 41 to 45).\<close>

definition contextSection :: "string list \<Rightarrow> string" where
  "contextSection contextTexts =
     (if contextTexts \<noteq> [] then
        (let combinedContext = join ([LF, LF] @ ''---'' @ [LF, LF]) contextTexts
         in string_replace contextFormat ''{context}'' combinedContext)
      else [])"

definition apology :: string where
  "apology = ''Sorry, I encountered an error while generating a response. Please try again later.''"

text \<open>The request that \<^verbatim>\<open>generateResponse\<close> prepares for the provider (lines 48 to 70).\<close>

definition chat_request_of :: "string \<Rightarrow> string list \<Rightarrow> avatarConfig \<Rightarrow> chat_request" where
  "chat_request_of query contextTexts cfg =
     (let systemPrompt = buildSystemPrompt cfg
      in \<lparr>messages =
            [\<lparr>role = ''system'', content = systemPrompt @ contextSection contextTexts\<rparr>,
             \<lparr>role = ''user'', content = query\<rparr>],
          chat_model = or_else (model cfg) ''gpt-4-turbo'',
          options = \<lparr>temperature = num_or_else (cfg_temperature cfg) (7 / 10),
                     max_tokens = num_or_else (maxTokens cfg) 1000\<rparr>\<rparr>)"

text \<open>
  \<^verbatim>\<open>generateResponse\<close> returns what the promise settles to, and the requests that were
  sent to the provider, in order.
\<close>

definition generateResponse ::
  "('e, 'v) openaiClient \<Rightarrow> string \<Rightarrow> string list \<Rightarrow> avatarConfig
   \<Rightarrow> ('e js_error + string) \<times> chat_request list" where
  "generateResponse openai query contextTexts cfg =
     (if \<not> client_set openai then (Inl (Error ''OpenAI client not initialized''), [])
      else
        (let request = chat_request_of query contextTexts cfg
         in case createChatCompletion openai request of
              Inr response \<Rightarrow> (Inr response, [request])
            | Inl err \<Rightarrow> (Inr apology, [request])))"

section \<open>embeddingService\<close>

text \<open>\<^verbatim>\<open>server/services/embeddingService.js\<close>\<close>

definition defaultModel :: string where
  "defaultModel = ''text-embedding-ada-002''"

definition maxContentLength :: int where
  "maxContentLength = 8000"

datatype 'a one_or_many = One 'a | Many "'a list"

record processed_item =
  originalText :: string
  processedText :: string
  tokenEstimate :: int

record 'v embedded_item =
  item_text :: string
  item_processedText :: string
  embedding :: 'v
  item_tokenEstimate :: int

text \<open>The callback of \<^verbatim>\<open>textArray.map\<close> (lines 35 to 49).\<close>

definition process_item :: "string \<Rightarrow> 'e js_error + processed_item" where
  "process_item text =
     (let cleanedText = cleanText text;
          estimate = estimateTokenCount cleanedText
      in if estimate > maxContentLength then Inl (ContentTooLargeError estimate maxContentLength)
         else Inr \<lparr>originalText = text, processedText = cleanedText, tokenEstimate = estimate\<rparr>)"

text \<open>\<^verbatim>\<open>textArray.map\<close> with a callback that may throw: the first error ends the map.\<close>

fun process_items :: "string list \<Rightarrow> 'e js_error + processed_item list" where
  "process_items [] = Inr []"
| "process_items (text # texts) =
     (case process_item text of
        Inl err \<Rightarrow> Inl err
      | Inr item \<Rightarrow>
          (case process_items texts of
             Inl err \<Rightarrow> Inl err
           | Inr items \<Rightarrow> Inr (item # items)))"

text \<open>
  The loop over the processed items (lines 52 to 67): the result, and the calls
  \<open>(text, model)\<close> made to the provider, in order.
\<close>

fun embed_items ::
  "('e, 'v) openaiClient \<Rightarrow> string \<Rightarrow> processed_item list
   \<Rightarrow> ('e js_error + 'v embedded_item list) \<times> (string \<times> string) list" where
  "embed_items openai model' [] = (Inr [], [])"
| "embed_items openai model' (item # items) =
     (case createEmbedding openai (processedText item) model' of
        Inl err \<Rightarrow> (Inl (Rejected err), [(processedText item, model')])
      | Inr vector \<Rightarrow>
          (let (rest, calls) = embed_items openai model' items;
               result = \<lparr>item_text = originalText item, item_processedText = processedText item,
                         embedding = vector, item_tokenEstimate = tokenEstimate item\<rparr>
           in (case rest of Inl err \<Rightarrow> Inl err | Inr results \<Rightarrow> Inr (result # results),
               (processedText item, model') # calls)))"

definition texts_of :: "string one_or_many \<Rightarrow> string list" where
  "texts_of content' = (case content' of One text \<Rightarrow> [text] | Many texts \<Rightarrow> texts)"

text \<open>
  \<^verbatim>\<open>generateEmbeddings\<close> returns what the promise settles to (\<open>None\<close> is \<^verbatim>\<open>undefined\<close>), and the
  calls made to the provider.
\<close>

definition generateEmbeddings ::
  "('e, 'v) openaiClient \<Rightarrow> string one_or_many \<Rightarrow> string option
   \<Rightarrow> ('e js_error + 'v embedded_item one_or_many option) \<times> (string \<times> string) list" where
  "generateEmbeddings openai content' model' =
     (if \<not> client_set openai then (Inl (Error ''OpenAI client not initialized''), [])
      else
        (let isArray = (case content' of Many _ \<Rightarrow> True | _ \<Rightarrow> False);
             textArray = texts_of content'
         in case process_items textArray of
              Inl err \<Rightarrow> (Inl err, [])
            | Inr processedItems \<Rightarrow>
                (case embed_items openai (case model' of None \<Rightarrow> defaultModel | Some m \<Rightarrow> m) processedItems of
                   (Inl err, calls) \<Rightarrow> (Inl err, calls)
                 | (Inr results, calls) \<Rightarrow>
                     (Inr (if isArray then Some (Many results)
                           else (case results of [] \<Rightarrow> None | r # _ \<Rightarrow> Some (One r))), calls))))"

subsection \<open>cosineSimilarity\<close>

text \<open>
  The loop of \<^verbatim>\<open>cosineSimilarity\<close> (lines 113 to 117) over two arrays of the same length, with
  the three sums \<^verbatim>\<open>dotProduct\<close>, \<^verbatim>\<open>mag1\<close> and \<^verbatim>\<open>mag2\<close>.
\<close>

fun cosine_loop :: "'n arithmetic \<Rightarrow> 'n list \<Rightarrow> 'n list \<Rightarrow> 'n \<times> 'n \<times> 'n \<Rightarrow> 'n \<times> 'n \<times> 'n" where
  "cosine_loop ar (x # xs) (y # ys) (dotProduct, mag1, mag2) =
     cosine_loop ar xs ys
       (num_add ar dotProduct (num_mul ar x y),
        num_add ar mag1 (num_mul ar x x),
        num_add ar mag2 (num_mul ar y y))"
| "cosine_loop ar xs ys acc = acc"

text \<open>An argument that is \<^verbatim>\<open>null\<close> or \<^verbatim>\<open>undefined\<close> is \<open>None\<close>.\<close>

definition cosineSimilarity :: "'n arithmetic \<Rightarrow> 'n list option \<Rightarrow> 'n list option \<Rightarrow> 'n" where
  "cosineSimilarity ar vec1 vec2 =
     (case (vec1, vec2) of
        (Some v1, Some v2) \<Rightarrow>
          if length v1 \<noteq> length v2 then num_zero ar
          else
            (let (dotProduct, sum1, sum2) = cosine_loop ar v1 v2 (num_zero ar, num_zero ar, num_zero ar);
                 mag1 = num_sqrt ar sum1;
                 mag2 = num_sqrt ar sum2
             in if num_is_zero ar mag1 \<or> num_is_zero ar mag2 then num_zero ar
                else num_div ar dotProduct (num_mul ar mag1 mag2))
      | _ \<Rightarrow> num_zero ar)"


section \<open>vectorRepository\<close>

text \<open>
  \<^verbatim>\<open>react_template/server/services/vectorRepository.js\<close>, and the schema that
  \<^verbatim>\<open>supabaseClient.setupSchema\<close> installs (\<^verbatim>\<open>server/services/supabaseClient.js\<close>).
\<close>

text \<open>A row of the table \<^verbatim>\<open>content_chunks\<close>.\<close>

record 'v content_chunk_row =
  row_id :: string
  user_id :: string
  content_type :: string
  content_id :: string
  content_source :: "string option"
  chunk_index :: int
  row_chunk_text :: string
  metadata :: "(string \<times> string) list option"
  row_embedding :: "'v option"
  created_at :: string

text \<open>A row of the table that the function \<^verbatim>\<open>match_content_chunks\<close> returns.\<close>

record 's match_row =
  match_id :: string
  match_content_id :: string
  match_content_type :: string
  content_text :: string
  match_metadata :: "(string \<times> string) list option"
  similarity :: 's

text \<open>
  The SQL function \<^verbatim>\<open>match_content_chunks\<close>. The similarity
  \<^verbatim>\<open>1 - (embedding <=> query_embedding)\<close> is computed by the database extension and is the
  parameter \<open>sim\<close>, with values in any linear order; a row without embedding has no
  similarity and fails the comparison of the \<^verbatim>\<open>WHERE\<close> clause. Rows of equal similarity
  come in an order that SQL leaves open; here it is the reverse of the stable sort.
\<close>

definition match_content_chunks ::
  "('v \<Rightarrow> 'v \<Rightarrow> 's::linorder) \<Rightarrow> 'v content_chunk_row list \<Rightarrow> 'v \<Rightarrow> 's \<Rightarrow> nat \<Rightarrow> string
   \<Rightarrow> 's match_row list" where
  "match_content_chunks sim table_rows query_embedding match_threshold match_count user_id_input =
     (let scored = List.map_filter
                     (\<lambda>r. case row_embedding r of
                            None \<Rightarrow> None
                          | Some e \<Rightarrow> Some (r, sim e query_embedding)) table_rows;
          selected = filter (\<lambda>(r, s). user_id r = user_id_input \<and> s > match_threshold) scored;
          ordered = rev (sort_key snd selected);
          limited = take match_count ordered
      in map (\<lambda>(r, s). \<lparr>match_id = row_id r, match_content_id = content_id r,
                         match_content_type = content_type r, content_text = row_chunk_text r,
                         match_metadata = metadata r, similarity = s\<rparr>) limited)"

text \<open>
  \<^verbatim>\<open>supabaseClient\<close>: \<open>client\<close> is \<open>None\<close> before the client is initialised; the database
  holds the table and, when the remote call fails, the error that it answers with.
\<close>

record ('e, 'v) database =
  content_chunks :: "'v content_chunk_row list"
  failure :: "'e option"

record ('e, 'v) supabaseClient =
  client :: "('e, 'v) database option"

record ('e, 's) rpc_response =
  data :: "'s match_row list option"
  error :: "'e option"

definition rpc_match_content_chunks ::
  "('v \<Rightarrow> 'v \<Rightarrow> 's::linorder) \<Rightarrow> ('e, 'v) database \<Rightarrow> 'v \<Rightarrow> 's \<Rightarrow> nat \<Rightarrow> string
   \<Rightarrow> ('e, 's) rpc_response" where
  "rpc_match_content_chunks sim db query_embedding match_threshold match_count user_id_input =
     (case failure db of
        Some e \<Rightarrow> \<lparr>data = None, error = Some e\<rparr>
      | None \<Rightarrow> \<lparr>data = Some (match_content_chunks sim (content_chunks db) query_embedding
                                match_threshold match_count user_id_input),
                 error = None\<rparr>)"

record 's vectorRepository =
  defaultSimilarityThreshold :: 's
  defaultMatchCount :: nat

record 's search_options =
  threshold :: "'s option"
  matchCount :: "nat option"
  contentTypes :: "string list"
  contentIds :: "string list"
  startDate :: "string option"
  endDate :: "string option"

text \<open>
  \<^verbatim>\<open>new Date(item.metadata?.created_at || item.created_at)\<close>: the rows that the remote
  function returns have no column \<^verbatim>\<open>created_at\<close>, so the date is that of the metadata, or
  invalid. \<open>parseDate\<close> is the time value of \<^verbatim>\<open>new Date(string)\<close>, \<open>None\<close> for an invalid date; a
  comparison with an invalid date is false.
\<close>

definition item_date :: "(string \<Rightarrow> int option) \<Rightarrow> 's match_row \<Rightarrow> int option" where
  "item_date parseDate item =
     (case match_metadata item of
        None \<Rightarrow> None
      | Some md \<Rightarrow> (if truthy (map_of md ''created_at'') then parseDate (the (map_of md ''created_at''))
                   else None))"

definition date_ge :: "int option \<Rightarrow> int option \<Rightarrow> bool" where
  "date_ge a b = (case (a, b) of (Some x, Some y) \<Rightarrow> x \<ge> y | _ \<Rightarrow> False)"

definition date_le :: "int option \<Rightarrow> int option \<Rightarrow> bool" where
  "date_le a b = (case (a, b) of (Some x, Some y) \<Rightarrow> x \<le> y | _ \<Rightarrow> False)"

definition findSimilarChunks ::
  "'s vectorRepository \<Rightarrow> (string \<Rightarrow> int option) \<Rightarrow> ('v \<Rightarrow> 'v \<Rightarrow> 's::linorder)
   \<Rightarrow> ('e, 'v) supabaseClient \<Rightarrow> 'v \<Rightarrow> string \<Rightarrow> 's search_options
   \<Rightarrow> 'e js_error + 's match_row list" where
  "findSimilarChunks this parseDate sim supabase queryEmbedding userId opts =
     (case client supabase of
        None \<Rightarrow> Inl (Error ''Supabase client not initialized'')
      | Some db \<Rightarrow>
          (let threshold' = (case threshold opts of None \<Rightarrow> defaultSimilarityThreshold this | Some t \<Rightarrow> t);
               matchCount' = (case matchCount opts of None \<Rightarrow> defaultMatchCount this | Some n \<Rightarrow> n);
               response = rpc_match_content_chunks sim db queryEmbedding threshold' matchCount' userId
           in case error response of
                Some e \<Rightarrow> Inl (Rejected e)
              | None \<Rightarrow>
                  (case data response of
                     None \<Rightarrow> Inr []
                   | Some rows \<Rightarrow>
                       (let filtered1 = (if length (contentTypes opts) > 0
                                         then filter (\<lambda>item. match_content_type item \<in> set (contentTypes opts)) rows
                                         else rows);
                            filtered2 = (if length (contentIds opts) > 0
                                         then filter (\<lambda>item. match_content_id item \<in> set (contentIds opts)) filtered1
                                         else filtered1);
                            filtered3 = (if truthy (startDate opts)
                                         then filter (\<lambda>item. date_ge (item_date parseDate item)
                                                                (parseDate (the (startDate opts)))) filtered2
                                         else filtered2);
                            filtered4 = (if truthy (endDate opts)
                                         then filter (\<lambda>item. date_le (item_date parseDate item)
                                                                (parseDate (the (endDate opts)))) filtered3
                                         else filtered3)
                        in Inr filtered4))))"

section \<open>Example data\<close>

text \<open>
  A store with three chunks: one of owner \<open>A\<close>, one of owner \<open>B\<close> with the same text and
  embedding, and one of owner \<open>B\<close> that is more similar to the query \<open>1\<close>.
\<close>

definition example_sim :: "int \<Rightarrow> int \<Rightarrow> real" where
  "example_sim e q = real_of_int (e * q) / 10"

definition no_dates :: "string \<Rightarrow> int option" where
  "no_dates s = None"

definition example_rows :: "int content_chunk_row list" where
  "example_rows =
     [\<lparr>row_id = ''1'', user_id = ''A'', content_type = ''custom_text'', content_id = ''c1'',
       content_source = None, chunk_index = 0, row_chunk_text = ''same text'', metadata = None,
       row_embedding = Some 8, created_at = ''2024-01-01''\<rparr>,
      \<lparr>row_id = ''2'', user_id = ''B'', content_type = ''custom_text'', content_id = ''c2'',
       content_source = None, chunk_index = 0, row_chunk_text = ''same text'', metadata = None,
       row_embedding = Some 8, created_at = ''2024-01-01''\<rparr>,
      \<lparr>row_id = ''3'', user_id = ''B'', content_type = ''custom_text'', content_id = ''c2'',
       content_source = None, chunk_index = 1, row_chunk_text = ''closer text'', metadata = None,
       row_embedding = Some 9, created_at = ''2024-01-01''\<rparr>]"

definition example_supabase :: "(unit, int) supabaseClient" where
  "example_supabase = \<lparr>client = Some \<lparr>content_chunks = example_rows, failure = None\<rparr>\<rparr>"

definition vectorRepository_defaults :: "real vectorRepository" where
  "vectorRepository_defaults = \<lparr>defaultSimilarityThreshold = 3 / 4, defaultMatchCount = 5\<rparr>"

definition default_options :: "real search_options" where
  "default_options =
     \<lparr>threshold = None, matchCount = None, contentTypes = [], contentIds = [],
      startDate = None, endDate = None\<rparr>"

text \<open>Two clients for the examples: one that is not initialised, one whose provider fails.\<close>

definition unavailable_embedding :: "string \<Rightarrow> string \<Rightarrow> unit + nat list" where
  "unavailable_embedding text model' = Inl ()"

definition unavailable_completion :: "chat_request \<Rightarrow> unit + string" where
  "unavailable_completion request = Inl ()"

definition uninitialised_client :: "(unit, nat list) openaiClient" where
  "uninitialised_client =
     \<lparr>client_set = False, createEmbedding = unavailable_embedding,
      createChatCompletion = unavailable_completion\<rparr>"

definition failing_client :: "(unit, nat list) openaiClient" where
  "failing_client =
     \<lparr>client_set = True, createEmbedding = unavailable_embedding,
      createChatCompletion = unavailable_completion\<rparr>"

definition empty_config :: avatarConfig where
  "empty_config =
     \<lparr>name = None, description = None, tone = None, writingStyle = None, knowledgeLevel = None,
      personality = None, customInstructions = None, model = None, cfg_temperature = None,
      maxTokens = None\<rparr>"


section \<open>Properties of the text processor\<close>

subsection \<open>Replacements and trimming\<close>

lemma replace_runs_unchanged:
  "\<forall>c \<in> set s. \<not> p c \<Longrightarrow> replace_runs p r s = s"
  by (induction s) auto

lemma set_replace_runs_subset:
  "set (replace_runs p r s) \<subseteq> {c \<in> set s. \<not> p c} \<union> set r"
proof (induction p r s rule: replace_runs.induct)
  case (1 p r)
  then show ?case by simp
next
  case (2 p r c cs)
  show ?case
  proof (cases "p c")
    case True
    with 2 have "set (replace_runs p r (dropWhile p cs)) \<subseteq> {c \<in> set (dropWhile p cs). \<not> p c} \<union> set r"
      by simp
    moreover have "set (dropWhile p cs) \<subseteq> set cs"
      by (auto dest: set_dropWhileD)
    ultimately show ?thesis using True by auto
  next
    case False
    with 2 show ?thesis by auto
  qed
qed

lemma set_trim_subset: "set (trim s) \<subseteq> set s"
  by (auto simp: trim_def dest!: set_dropWhileD)

lemma trim_unchanged: "\<forall>c \<in> set s. \<not> is_space c \<Longrightarrow> trim s = s"
proof -
  assume a: "\<forall>c \<in> set s. \<not> is_space c"
  have d: "dropWhile is_space t = t" if "\<forall>c \<in> set t. \<not> is_space c" for t
    using that by (cases t) auto
  from a have "dropWhile is_space s = s" by (rule d)
  moreover from a have "dropWhile is_space (rev s) = rev s" by (intro d) simp
  ultimately show ?thesis by (simp add: trim_def)
qed

subsection \<open>The chunking loop\<close>

lemma lastIndexFrom_fits:
  "searchString \<noteq> [] \<Longrightarrow> lastIndexFrom s searchString k + 1 \<le> int (length s)"
proof (induction k)
  case 0
  then show ?case by (cases s) auto
next
  case (Suc k)
  show ?case
  proof (cases "take (length searchString) (drop (Suc k) s) = searchString")
    case True
    then have "drop (Suc k) s \<noteq> []" using Suc.prems by auto
    then have "Suc k < length s" by simp
    with True show ?thesis by simp
  next
    case False
    with Suc show ?thesis by simp
  qed
qed

lemma lastIndexOf_fits:
  "searchString \<noteq> [] \<Longrightarrow> lastIndexOf s searchString position + 1 \<le> int (length s)"
  by (simp add: lastIndexOf_def lastIndexFrom_fits)

lemma chunk_end_le_length: "chunk_end text chunkSize startPos \<le> int (length text)"
  using lastIndexOf_fits [of "[LF, LF]" "text" "startPos + chunkSize"]
        lastIndexOf_fits [of "''. ''" "text" "startPos + chunkSize"]
  by (simp add: chunk_end_def Let_def)

lemma chunk_loop_returns_only_past_the_end:
  assumes "chunk_loop str chunkSize overlap startPos chunks = Some result"
    and "0 < overlap"
  shows "int (length str) \<le> startPos"
  using assms
proof (induction rule: chunk_loop.raw_induct [rotated 1, consumes 1])
  case (1 loop str chunkSize overlap startPos chunks result)
  show ?case
  proof (rule ccontr)
    assume "\<not> int (length str) \<le> startPos"
    then have inside: "startPos < int (length str)" by simp
    define endPos where "endPos = chunk_end str chunkSize startPos"
    have before_end: "endPos - overlap < int (length str)"
      using chunk_end_le_length [of str chunkSize startPos] \<open>0 < overlap\<close>
      by (simp add: endPos_def)
    with inside "1.hyps" obtain chunks' where
      "loop str chunkSize overlap (endPos - overlap) chunks' = Some result"
      by (simp add: Let_def endPos_def)
    from "1.IH" [OF this \<open>0 < overlap\<close>] before_end
    show False by simp
  qed
qed

lemma chunk_loop_diverges:
  assumes "0 < overlap" and "startPos < int (length str)"
  shows "chunk_loop str chunkSize overlap startPos chunks = None"
proof (cases "chunk_loop str chunkSize overlap startPos chunks")
  case None
  then show ?thesis .
next
  case (Some result)
  from chunk_loop_returns_only_past_the_end [OF this assms(1)] assms(2)
  show ?thesis by simp
qed

text \<open>
  C1 (termination of \<open>chunkText\<close>, as the code has it): the claim is that \<open>chunkText\<close>
  returns for every non-empty text when \<open>0 < overlap < chunkSize\<close>. The loop leaves only
  when the next start position reaches the length of the text, and the next start position
  is an end position, at most the length, minus the overlap. So for every text longer than
  \<open>chunkSize\<close> and every positive overlap the loop never returns.
\<close>

theorem chunkText_never_returns:
  "0 < overlap \<Longrightarrow> overlap < chunkSize \<Longrightarrow> chunkSize < int (length text) \<Longrightarrow>
   chunkText text chunkSize overlap = None"
  using chunk_loop_diverges [of overlap 0 "text" chunkSize "[]"]
  by (auto simp: chunkText_def)

theorem chunkText_never_returns_witness:
  "(0::int) < 1 \<and> (1::int) < 3 \<and> 3 < int (length ''abcde'')
   \<and> chunkText ''abcde'' 3 1 = None"
  using chunkText_never_returns [of 1 3 "''abcde''"]
  by simp

text \<open>
  C2 (the scenario of 5000 characters with \<open>chunkSize = 1500\<close> and \<open>overlap = 150\<close>, as
  the code has it): on every text of 5000 characters the call never returns, so it yields
  no list of four chunks.
\<close>

theorem chunkText_5000_never_returns:
  "length text = 5000 \<Longrightarrow> chunkText text 1500 150 = None"
  using chunk_loop_diverges [of 150 0 "text" 1500 "[]"]
  by (auto simp: chunkText_def)

theorem chunkText_5000_never_returns_witness:
  "length (replicate 5000 (CHR ''a'')) = 5000
   \<and> chunkText (replicate 5000 (CHR ''a'')) 1500 150 = None"
  using chunkText_5000_never_returns [of "replicate 5000 (CHR ''a'')"]
  by simp


text \<open>
  What the loop does where it can return, and how it fails to: a text no longer than
  \<open>chunkSize\<close> is one chunk; without overlap the loop returns; on 5000 characters \<open>a\<close> with
  the default parameters it emits four chunks, reaches the start position 4850 and from
  there appends the chunk from 4850 to 5000 for ever.
\<close>

lemma chunkText_short:
  "text \<noteq> [] \<Longrightarrow> int (length text) \<le> chunkSize \<Longrightarrow>
   chunkText text chunkSize overlap =
     Some [\<lparr>chunk_text = text, startChar = 0, endChar = int (length text)\<rparr>]"
  by (simp add: chunkText_def)

lemma chunk_loop_after_end:
  "int (length text) \<le> startPos \<Longrightarrow> chunk_loop text chunkSize overlap startPos chunks = Some chunks"
  by (subst chunk_loop.simps) simp

lemma lastIndexFrom_absent:
  "searchString \<noteq> [] \<Longrightarrow> hd searchString \<notin> set s \<Longrightarrow> lastIndexFrom s searchString k = - 1"
proof (induction k)
  case 0
  then show ?case
    by (cases s; cases searchString) auto
next
  case (Suc k)
  have "take (length searchString) (drop (Suc k) s) \<noteq> searchString"
  proof
    assume eq: "take (length searchString) (drop (Suc k) s) = searchString"
    with Suc.prems(1) have "hd searchString \<in> set (take (length searchString) (drop (Suc k) s))"
      by (metis hd_in_set)
    then have "hd searchString \<in> set s"
      by (meson in_set_dropD in_set_takeD)
    with Suc.prems(2) show False by simp
  qed
  with Suc show ?case by simp
qed

lemma chunk_end_plain:
  assumes "LF \<notin> set text" and "CHR ''.'' \<notin> set text" and "0 \<le> startPos"
  shows "chunk_end text chunkSize startPos =
           (if startPos + chunkSize < int (length text) then startPos + chunkSize
            else int (length text))"
  using assms
  by (simp add: chunk_end_def lastIndexOf_def lastIndexFrom_absent Let_def)

lemma trim_replicate_a: "trim (replicate n (CHR ''a'')) = replicate n (CHR ''a'')"
  by (rule trim_unchanged) (simp add: is_space_def)

lemma chunk_loop_step_plain:
  assumes "LF \<notin> set text" and "CHR ''.'' \<notin> set text"
    and "0 \<le> startPos" and "startPos < int (length text)"
    and "endPos = (if startPos + chunkSize < int (length text) then startPos + chunkSize
                   else int (length text))"
    and "trim (substring text startPos endPos) \<noteq> []"
    and "endPos - overlap < int (length text)"
  shows "chunk_loop text chunkSize overlap startPos chunks =
           chunk_loop text chunkSize overlap (endPos - overlap)
             (chunks @ [\<lparr>chunk_text = trim (substring text startPos endPos),
                          startChar = startPos, endChar = endPos\<rparr>])"
  using assms(4-7) chunk_end_plain [OF assms(1-3), of chunkSize]
  by (subst chunk_loop.simps) (simp add: Let_def)

lemma chunk_loop_5000_trace:
  "chunk_loop (replicate 5000 (CHR ''a'')) 1500 150 0 [] =
     chunk_loop (replicate 5000 (CHR ''a'')) 1500 150 4850
       [\<lparr>chunk_text = replicate 1500 (CHR ''a''), startChar = 0, endChar = 1500\<rparr>,
        \<lparr>chunk_text = replicate 1500 (CHR ''a''), startChar = 1350, endChar = 2850\<rparr>,
        \<lparr>chunk_text = replicate 1500 (CHR ''a''), startChar = 2700, endChar = 4200\<rparr>,
        \<lparr>chunk_text = replicate 950 (CHR ''a''), startChar = 4050, endChar = 5000\<rparr>]"
  apply (subst chunk_loop_step_plain [where endPos = 1500]; simp add: substring_def trim_replicate_a)
  apply (subst chunk_loop_step_plain [where endPos = 2850]; simp add: substring_def trim_replicate_a)
  apply (subst chunk_loop_step_plain [where endPos = 4200]; simp add: substring_def trim_replicate_a)
  apply (subst chunk_loop_step_plain [where endPos = 5000]; simp add: substring_def trim_replicate_a)
  done

lemma chunk_loop_5000_stuck:
  "chunk_loop (replicate 5000 (CHR ''a'')) 1500 150 4850 chunks =
     chunk_loop (replicate 5000 (CHR ''a'')) 1500 150 4850
       (chunks @ [\<lparr>chunk_text = replicate 150 (CHR ''a''), startChar = 4850, endChar = 5000\<rparr>])"
  by (subst chunk_loop_step_plain [where endPos = 5000]; simp add: substring_def trim_replicate_a)

lemma chunkText_without_overlap:
  "chunkText ''abcde'' 2 0 =
     Some [\<lparr>chunk_text = ''ab'', startChar = 0, endChar = 2\<rparr>,
           \<lparr>chunk_text = ''cd'', startChar = 2, endChar = 4\<rparr>,
           \<lparr>chunk_text = ''e'', startChar = 4, endChar = 5\<rparr>]"
proof -
  have t: "trim ''ab'' = ''ab''" "trim ''cd'' = ''cd''" "trim ''e'' = ''e''"
    by (simp_all add: trim_def is_space_def)
  have "chunk_loop ''abcde'' 2 0 0 [] =
          chunk_loop ''abcde'' 2 0 2 [\<lparr>chunk_text = ''ab'', startChar = 0, endChar = 2\<rparr>]"
    by (subst chunk_loop_step_plain [where endPos = 2]; simp add: substring_def t)
  also have "\<dots> = chunk_loop ''abcde'' 2 0 4
                     [\<lparr>chunk_text = ''ab'', startChar = 0, endChar = 2\<rparr>,
                      \<lparr>chunk_text = ''cd'', startChar = 2, endChar = 4\<rparr>]"
    by (subst chunk_loop_step_plain [where endPos = 4]; simp add: substring_def t)
  also have "\<dots> = Some [\<lparr>chunk_text = ''ab'', startChar = 0, endChar = 2\<rparr>,
                         \<lparr>chunk_text = ''cd'', startChar = 2, endChar = 4\<rparr>,
                         \<lparr>chunk_text = ''e'', startChar = 4, endChar = 5\<rparr>]"
    by (subst chunk_loop.simps)
       (simp add: chunk_end_plain substring_def t Let_def)
  finally show ?thesis by (simp add: chunkText_def)
qed

subsection \<open>cleanText\<close>

lemma LF_notin_collapsed: "LF \<notin> set (replace_runs is_space '' '' s)"
  using set_replace_runs_subset [of is_space "'' ''" s]
  by (auto simp: is_space_def)

lemma cleanText_no_line_feed: "LF \<notin> set (cleanText s)"
proof (cases "s = []")
  case True
  then show ?thesis by (simp add: cleanText_def)
next
  case False
  let ?a = "replace_runs is_space '' '' s"
  let ?c = "replace_runs (\<lambda>c. c = TAB) '' '' ?a"
  have a: "LF \<notin> set ?a" by (rule LF_notin_collapsed)
  then have b: "replace_runs (\<lambda>c. c = LF) [LF] ?a = ?a"
    by (intro replace_runs_unchanged) auto
  have "LF \<notin> set ?c"
    using set_replace_runs_subset [of "\<lambda>c. c = TAB" "'' ''" ?a] a by auto
  then have "LF \<notin> set (filter (\<lambda>c. c \<noteq> CR) ?c)" by simp
  then have "LF \<notin> set (trim (filter (\<lambda>c. c \<noteq> CR) ?c))"
    using set_trim_subset by blast
  with False b show ?thesis by (simp add: cleanText_def)
qed

lemma cleanText_unchanged:
  assumes "\<forall>c \<in> set s. \<not> is_space c"
  shows "cleanText s = s"
proof -
  have lf: "\<forall>c \<in> set s. \<not> c = LF" and tab: "\<forall>c \<in> set s. \<not> c = TAB"
    and cr: "\<forall>c \<in> set s. c \<noteq> CR"
    using assms by (auto simp: is_space_def)
  from cr have "filter (\<lambda>c. c \<noteq> CR) s = s" by simp
  then show ?thesis
    by (simp add: cleanText_def replace_runs_unchanged [OF assms] replace_runs_unchanged [OF lf]
          replace_runs_unchanged [OF tab] trim_unchanged [OF assms])
qed

text \<open>
  C7 (line feeds in \<open>cleanText\<close>, as the code has it): the first replacement turns every
  run of white space, line feeds included, into one space, so no line feed reaches the
  second replacement: the text \<open>a\<close>, line feed, \<open>b\<close> becomes \<open>a b\<close>, and no output of
  \<open>cleanText\<close> contains a line feed.
\<close>

theorem cleanText_drops_line_feeds:
  "cleanText [CHR ''a'', LF, CHR ''b''] = ''a b'' \<and> (\<forall>s. LF \<notin> set (cleanText s))"
  by (simp add: cleanText_no_line_feed) (simp add: cleanText_def trim_def is_space_def)

subsection \<open>estimateTokenCount\<close>

text \<open>
  C9: for every text, \<open>estimateTokenCount\<close> is the ceiling of a quarter of the length; it
  is 0 for the empty text, and a text at least as long never has a smaller estimate.
\<close>

theorem estimateTokenCount_ceiling:
  "estimateTokenCount s = \<lceil>real (length s) / 4\<rceil>
   \<and> estimateTokenCount [] = 0
   \<and> (length s \<le> length t \<longrightarrow> estimateTokenCount s \<le> estimateTokenCount t)"
proof -
  have eq: "estimateTokenCount u = \<lceil>real (length u) / 4\<rceil>" for u
    by (simp add: estimateTokenCount_def)
  have "\<lceil>real (length s) / 4\<rceil> \<le> \<lceil>real (length t) / 4\<rceil>" if "length s \<le> length t"
    using that by (intro ceiling_mono) simp
  then show ?thesis by (simp add: eq)
qed

theorem estimateTokenCount_ceiling_witness:
  "length ''abcd'' \<le> length ''abcde''
   \<and> estimateTokenCount ''abcd'' = 1 \<and> estimateTokenCount ''abcde'' = 2
   \<and> estimateTokenCount ''abcd'' \<le> estimateTokenCount ''abcde''"
  using estimateTokenCount_ceiling [of "''abcd''" "''abcde''"]
  by (simp add: estimateTokenCount_def)

subsection \<open>cleanTranscript\<close>

text \<open>The characters of joined lines.\<close>

lemma set_join: "set (join sep xs) \<subseteq> set sep \<union> \<Union> (set ` set xs)"
  by (induction sep xs rule: join.induct) auto

lemmas matcher_defs = lit_def one_of_def plus_of_def star_of_def opt_of_def seq_def
  line_start_def at_line_start_def




















text \<open>The line of the claim, and four lines at once, evaluated with the code alone.\<close>

lemma cleanTranscript_hello: "cleanTranscript ''Hello there.'' = ''there.''"
  by (simp add: cleanTranscript_def strip_speaker_names_def matcher_defs trim_def
        timestamp_hms_def timestamp_ms_def speaker_label_def speaker_name_def
        is_digit_def is_upper_def is_lower_def is_space_def)

lemma cleanTranscript_four_lines:
  "cleanTranscript (''intro text'' @ [LF] @ ''Hello there.'' @ [LF] @ ''Bob: hi'' @ [LF] @ ''I am here.'')
     = ''intro text there. hi I am here.''"
  by (simp add: cleanTranscript_def strip_speaker_names_def matcher_defs trim_def
        timestamp_hms_def timestamp_ms_def speaker_label_def speaker_name_def
        is_digit_def is_upper_def is_lower_def is_space_def)

section \<open>Properties of the vector repository\<close>

subsection \<open>Tenancy\<close>

lemma match_content_chunks_from_owner:
  assumes "item \<in> set (match_content_chunks sim rows q th n uid)"
  shows "\<exists>r \<in> set rows. user_id r = uid \<and> row_id r = match_id item
           \<and> row_chunk_text r = content_text item"
proof -
  let ?scored = "List.map_filter
                   (\<lambda>r. case row_embedding r of None \<Rightarrow> None | Some e \<Rightarrow> Some (r, sim e q)) rows"
  let ?selected = "filter (\<lambda>(r, s). user_id r = uid \<and> s > th) ?scored"
  from assms obtain r s where rs: "(r, s) \<in> set (take n (rev (sort_key snd ?selected)))"
    and item: "item = \<lparr>match_id = row_id r, match_content_id = content_id r,
                        match_content_type = content_type r, content_text = row_chunk_text r,
                        match_metadata = metadata r, similarity = s\<rparr>"
    by (auto simp: match_content_chunks_def Let_def)
  from rs have "(r, s) \<in> set (rev (sort_key snd ?selected))"
    by (rule in_set_takeD)
  then have sel: "(r, s) \<in> set ?selected" by simp
  then have "user_id r = uid" by simp
  moreover from sel have "(r, s) \<in> set ?scored" by simp
  then have "r \<in> set rows"
    by (auto simp: List.map_filter_def split: option.splits)
  ultimately show ?thesis using item by auto
qed

lemma set_filter_if_subset: "set (if b then filter P xs else xs) \<subseteq> set xs"
  by auto

lemma findSimilarChunks_subset_rpc:
  assumes "client supabase = Some db"
    and "findSimilarChunks this parseDate sim supabase q uid opts = Inr results"
  shows "\<exists>th n. set results \<subseteq> set (match_content_chunks sim (content_chunks db) q th n uid)"
proof -
  define th where "th = (case threshold opts of None \<Rightarrow> defaultSimilarityThreshold this | Some t \<Rightarrow> t)"
  define n where "n = (case matchCount opts of None \<Rightarrow> defaultMatchCount this | Some n \<Rightarrow> n)"
  define rows where "rows = match_content_chunks sim (content_chunks db) q th n uid"
  have no_failure: "failure db = None"
  proof (cases "failure db")
    case None
    then show ?thesis .
  next
    case (Some e)
    with assms show ?thesis
      by (simp add: findSimilarChunks_def rpc_match_content_chunks_def Let_def)
  qed
  define f1 where "f1 = (if length (contentTypes opts) > 0
                          then filter (\<lambda>item. match_content_type item \<in> set (contentTypes opts)) rows
                          else rows)"
  define f2 where "f2 = (if length (contentIds opts) > 0
                          then filter (\<lambda>item. match_content_id item \<in> set (contentIds opts)) f1
                          else f1)"
  define f3 where "f3 = (if truthy (startDate opts)
                          then filter (\<lambda>item. date_ge (item_date parseDate item)
                                                 (parseDate (the (startDate opts)))) f2
                          else f2)"
  define f4 where "f4 = (if truthy (endDate opts)
                          then filter (\<lambda>item. date_le (item_date parseDate item)
                                                 (parseDate (the (endDate opts)))) f3
                          else f3)"
  have "findSimilarChunks this parseDate sim supabase q uid opts = Inr f4"
    using assms(1) no_failure
    unfolding f4_def f3_def f2_def f1_def rows_def n_def th_def
    by (simp add: findSimilarChunks_def rpc_match_content_chunks_def Let_def
             split del: if_split cong: if_cong)
  with assms(2) have "results = f4" by simp
  moreover have "set f4 \<subseteq> set f3" unfolding f4_def by (rule set_filter_if_subset)
  moreover have "set f3 \<subseteq> set f2" unfolding f3_def by (rule set_filter_if_subset)
  moreover have "set f2 \<subseteq> set f1" unfolding f2_def by (rule set_filter_if_subset)
  moreover have "set f1 \<subseteq> set rows" unfolding f1_def by (rule set_filter_if_subset)
  ultimately have "set results \<subseteq> set rows" by blast
  then show ?thesis unfolding rows_def by blast
qed

text \<open>
  C3: whatever the store holds, every chunk that a search for the owner \<open>userId\<close> returns
  is a stored chunk of that owner; and when the identifiers of the stored chunks are
  distinct, no chunk of another owner is among the results, whatever its text, embedding
  or similarity.
\<close>

theorem findSimilarChunks_only_owner:
  assumes "client supabase = Some db"
    and "findSimilarChunks this parseDate sim supabase queryEmbedding userId opts = Inr results"
  shows "(\<forall>item \<in> set results.
            \<exists>r \<in> set (content_chunks db).
              user_id r = userId \<and> row_id r = match_id item \<and> row_chunk_text r = content_text item)
         \<and> (distinct (map row_id (content_chunks db)) \<longrightarrow>
              (\<forall>r \<in> set (content_chunks db).
                 user_id r \<noteq> userId \<longrightarrow> row_id r \<notin> match_id ` set results))"
proof -
  from findSimilarChunks_subset_rpc [OF assms] obtain th n where
    sub: "set results \<subseteq> set (match_content_chunks sim (content_chunks db) queryEmbedding th n userId)"
    by blast
  have owner: "\<exists>r \<in> set (content_chunks db).
                 user_id r = userId \<and> row_id r = match_id item \<and> row_chunk_text r = content_text item"
    if "item \<in> set results" for item
  proof -
    from that sub
    have "item \<in> set (match_content_chunks sim (content_chunks db) queryEmbedding th n userId)"
      by (rule subsetD [rotated])
    then show ?thesis by (rule match_content_chunks_from_owner)
  qed
  have "row_id r \<notin> match_id ` set results"
    if d: "distinct (map row_id (content_chunks db))"
      and r: "r \<in> set (content_chunks db)" "user_id r \<noteq> userId" for r
  proof
    assume "row_id r \<in> match_id ` set results"
    then obtain item where item: "item \<in> set results" "match_id item = row_id r" by auto
    from owner [OF item(1)] obtain r' where r': "r' \<in> set (content_chunks db)"
      "user_id r' = userId" "row_id r' = match_id item" by blast
    from d have "inj_on row_id (set (content_chunks db))" by (simp add: distinct_map)
    from inj_onD [OF this _ r'(1) r(1)] r'(3) item(2) have "r' = r" by simp
    with r(2) r'(2) show False by simp
  qed
  with owner show ?thesis by blast
qed

theorem findSimilarChunks_only_owner_witness:
  "client example_supabase = Some \<lparr>content_chunks = example_rows, failure = None\<rparr>
   \<and> findSimilarChunks vectorRepository_defaults no_dates example_sim example_supabase 1 ''A''
         default_options
       = Inr [\<lparr>match_id = ''1'', match_content_id = ''c1'', match_content_type = ''custom_text'',
               content_text = ''same text'', match_metadata = None, similarity = 4 / 5\<rparr>]
   \<and> distinct (map row_id example_rows)
   \<and> ''2'' \<notin> match_id ` set [\<lparr>match_id = ''1'', match_content_id = ''c1'',
               match_content_type = ''custom_text'', content_text = ''same text'',
               match_metadata = None, similarity = 4 / 5 :: real\<rparr>]
   \<and> ''3'' \<notin> match_id ` set [\<lparr>match_id = ''1'', match_content_id = ''c1'',
               match_content_type = ''custom_text'', content_text = ''same text'',
               match_metadata = None, similarity = 4 / 5 :: real\<rparr>]"
proof -
  let ?db = "\<lparr>content_chunks = example_rows, failure = None :: unit option\<rparr>"
  let ?found = "[\<lparr>match_id = ''1'', match_content_id = ''c1'', match_content_type = ''custom_text'',
                  content_text = ''same text'', match_metadata = None, similarity = 4 / 5 :: real\<rparr>]"
  have h1: "client example_supabase = Some ?db"
    by (simp add: example_supabase_def)
  have h2: "findSimilarChunks vectorRepository_defaults no_dates example_sim example_supabase 1 ''A''
              default_options = Inr ?found"
    by (simp add: findSimilarChunks_def example_supabase_def rpc_match_content_chunks_def
          match_content_chunks_def example_rows_def example_sim_def vectorRepository_defaults_def
          default_options_def truthy_def)
  have d: "distinct (map row_id example_rows)"
    by (simp add: example_rows_def)
  from findSimilarChunks_only_owner [OF h1 h2] d
  have "\<forall>r \<in> set example_rows. user_id r \<noteq> ''A'' \<longrightarrow> row_id r \<notin> match_id ` set ?found"
    by simp
  then have "''2'' \<notin> match_id ` set ?found" and "''3'' \<notin> match_id ` set ?found"
    by (simp_all add: example_rows_def)
  with h1 h2 d show ?thesis by simp
qed

section \<open>Properties of the response generator\<close>

subsection \<open>Context assembly\<close>

lemma get_substitution_plain:
  "CHR ''$'' \<notin> set replacement \<Longrightarrow> get_substitution matched leftPart rightPart replacement = replacement"
  by (induction matched leftPart rightPart replacement rule: get_substitution.induct) auto

lemma length_join:
  "length (join sep xs) = sum_list (map length xs) + length sep * (length xs - 1)"
  by (induction sep xs rule: join.induct) auto

lemma split_contextFormat:
  "split_at_first ''{context}'' contextFormat =
     Some ([LF] @ ''----- CONTEXT START -----'' @ [LF], [LF] @ ''----- CONTEXT END -----'' @ [LF])"
  by (simp add: contextFormat_def)

lemma contextSection_plain:
  assumes "contextTexts \<noteq> []" and "\<forall>t \<in> set contextTexts. CHR ''$'' \<notin> set t"
  shows "contextSection contextTexts =
           [LF] @ ''----- CONTEXT START -----'' @ [LF]
           @ join ([LF, LF] @ ''---'' @ [LF, LF]) contextTexts
           @ [LF] @ ''----- CONTEXT END -----'' @ [LF]"
proof -
  have "CHR ''$'' \<notin> set (join ([LF, LF] @ ''---'' @ [LF, LF]) contextTexts)"
    using set_join [of "[LF, LF] @ ''---'' @ [LF, LF]" contextTexts] assms(2) by auto
  then show ?thesis
    using assms(1)
    by (simp add: contextSection_def string_replace_def split_contextFormat get_substitution_plain
             del: split_at_first.simps)
qed

text \<open>
  C4 (context assembly, as the code has it): for texts without the character \<open>$\<close>, the
  context section is all the retrieved texts, in the order given, joined by the separator
  between the two marker lines, and it follows the system prompt in the request; its
  length is the sum of the lengths of the texts plus the separators and the 52 characters
  of the markers. No budget applies: nothing is dropped or cut.
\<close>

theorem contextSection_unbounded:
  assumes "contextTexts \<noteq> []" and "\<forall>t \<in> set contextTexts. CHR ''$'' \<notin> set t"
  shows "contextSection contextTexts =
           [LF] @ ''----- CONTEXT START -----'' @ [LF]
           @ join ([LF, LF] @ ''---'' @ [LF, LF]) contextTexts
           @ [LF] @ ''----- CONTEXT END -----'' @ [LF]
         \<and> length (contextSection contextTexts) =
             52 + sum_list (map length contextTexts) + 7 * (length contextTexts - 1)
         \<and> content (hd (messages (chat_request_of query contextTexts cfg))) =
             buildSystemPrompt cfg @ contextSection contextTexts"
  by (simp add: contextSection_plain [OF assms] length_join chat_request_of_def)

theorem contextSection_unbounded_witness:
  "[''aa'', ''b''] \<noteq> [] \<and> CHR ''$'' \<notin> set ''aa'' \<and> CHR ''$'' \<notin> set ''b''
   \<and> contextSection [''aa'', ''b''] =
       [LF] @ ''----- CONTEXT START -----'' @ [LF] @ ''aa'' @ [LF, LF] @ ''---'' @ [LF, LF] @ ''b''
       @ [LF] @ ''----- CONTEXT END -----'' @ [LF]
   \<and> length (contextSection [''aa'', ''b'']) = 62"
proof -
  have h1: "[''aa'', ''b''] \<noteq> []" by simp
  have h2: "\<forall>t \<in> set [''aa'', ''b'']. CHR ''$'' \<notin> set t" by simp
  from contextSection_unbounded [OF h1 h2, of "[]" empty_config] show ?thesis by simp
qed

text \<open>
  The claim C4 as stated fails: one retrieved text of 20000 characters gives a context
  whose estimate is 5013 tokens, above the budget of 4000.
\<close>

theorem contextSection_exceeds_budget:
  "estimateTokenCount (contextSection [replicate 20000 (CHR ''a'')]) = 5013"
proof -
  have "contextSection [replicate 20000 (CHR ''a'')] =
          [LF] @ ''----- CONTEXT START -----'' @ [LF]
          @ join ([LF, LF] @ ''---'' @ [LF, LF]) [replicate 20000 (CHR ''a'')]
          @ [LF] @ ''----- CONTEXT END -----'' @ [LF]"
    by (rule contextSection_plain) simp_all
  then show ?thesis
    by (simp add: estimateTokenCount_def)
qed

subsection \<open>Provider failures\<close>

text \<open>
  C5 (provider failures, as the code has it): when the client is initialised and the
  provider rejects the request, \<open>generateResponse\<close> sends that one request, with no retry,
  and resolves to the fixed apology; the failure does not reach the caller. The call
  rejects only when the client is not initialised, and then without a request.
\<close>

theorem generateResponse_swallows_provider_failure:
  "(client_set openai \<and> createChatCompletion openai (chat_request_of query contextTexts cfg) = Inl e
      \<longrightarrow> generateResponse openai query contextTexts cfg =
            (Inr apology, [chat_request_of query contextTexts cfg]))
   \<and> (\<not> client_set openai
      \<longrightarrow> generateResponse openai query contextTexts cfg =
            (Inl (Error ''OpenAI client not initialized''), []))
   \<and> (fst (generateResponse openai query contextTexts cfg) = Inl err
      \<longrightarrow> \<not> client_set openai \<and> err = Error ''OpenAI client not initialized'')"
  by (auto simp: generateResponse_def Let_def split: sum.splits)

theorem generateResponse_swallows_provider_failure_witness:
  "client_set failing_client
   \<and> createChatCompletion failing_client (chat_request_of ''hi'' [] empty_config) = Inl ()
   \<and> generateResponse failing_client ''hi'' [] empty_config =
       (Inr apology, [chat_request_of ''hi'' [] empty_config])
   \<and> \<not> client_set uninitialised_client
   \<and> generateResponse uninitialised_client ''hi'' [] empty_config =
       (Inl (Error ''OpenAI client not initialized''), [])
   \<and> fst (generateResponse uninitialised_client ''hi'' [] empty_config) =
       Inl (Error ''OpenAI client not initialized'')"
proof -
  have h1: "client_set failing_client" by (simp add: failing_client_def)
  have h2: "createChatCompletion failing_client (chat_request_of ''hi'' [] empty_config) = Inl ()"
    by (simp add: failing_client_def unavailable_completion_def)
  have h3: "\<not> client_set uninitialised_client" by (simp add: uninitialised_client_def)
  from generateResponse_swallows_provider_failure
         [of failing_client "''hi''" "[]" empty_config "()"] h1 h2
  have a: "generateResponse failing_client ''hi'' [] empty_config =
             (Inr apology, [chat_request_of ''hi'' [] empty_config])"
    by blast
  from generateResponse_swallows_provider_failure
         [of uninitialised_client "''hi''" "[]" empty_config] h3
  have b: "generateResponse uninitialised_client ''hi'' [] empty_config =
             (Inl (Error ''OpenAI client not initialized''), [])"
    by blast
  from h1 h2 h3 a b show ?thesis by simp
qed

text \<open>
  The claim C5 as stated fails: with a provider that rejects every request, the call
  resolves to the apology and does not reject with the error of the provider.
\<close>

theorem generateResponse_failure_not_propagated:
  "createChatCompletion failing_client (chat_request_of ''hi'' [] empty_config) = Inl ()
   \<and> fst (generateResponse failing_client ''hi'' [] empty_config) = Inr apology
   \<and> fst (generateResponse failing_client ''hi'' [] empty_config) \<noteq> Inl (Rejected ())"
  by (simp add: generateResponse_def failing_client_def unavailable_completion_def)

section \<open>Properties of the embedding service\<close>

lemma process_items_too_large_iff:
  "(\<exists>estimate maximum. (process_items texts :: 'e js_error + processed_item list)
        = Inl (ContentTooLargeError estimate maximum))
   \<longleftrightarrow> (\<exists>t \<in> set texts. estimateTokenCount (cleanText t) > 8000)"
  by (induction texts)
     (auto simp: process_item_def maxContentLength_def Let_def split: sum.splits if_splits)

lemma process_items_error_is_too_large:
  "(process_items texts :: 'e js_error + processed_item list) = Inl err \<Longrightarrow>
   \<exists>estimate maximum. err = ContentTooLargeError estimate maximum"
  by (induction texts arbitrary: err)
     (auto simp: process_item_def Let_def split: sum.splits if_splits)

lemma embed_items_never_too_large:
  "fst (embed_items openai m items) \<noteq> Inl (ContentTooLargeError estimate maximum)"
  by (induction items) (auto split: sum.splits prod.splits)

text \<open>
  C8 (the size guard, as the code has it): when the client is initialised,
  \<open>generateEmbeddings\<close> fails with the content-too-large error exactly when the estimate of
  one of the cleaned input texts exceeds 8000; and then no call to the provider has been
  made.
\<close>

theorem generateEmbeddings_too_large_iff:
  assumes "client_set openai"
  shows "((\<exists>estimate maximum.
             fst (generateEmbeddings openai content' model') = Inl (ContentTooLargeError estimate maximum))
          \<longleftrightarrow> (\<exists>t \<in> set (texts_of content'). estimateTokenCount (cleanText t) > 8000))
         \<and> ((\<exists>t \<in> set (texts_of content'). estimateTokenCount (cleanText t) > 8000)
              \<longrightarrow> snd (generateEmbeddings openai content' model') = [])"
proof (cases "process_items (texts_of content') :: 'a js_error + processed_item list")
  case (Inl err)
  from process_items_error_is_too_large [OF this] obtain estimate maximum
    where err: "err = ContentTooLargeError estimate maximum" by blast
  with Inl have large: "\<exists>t \<in> set (texts_of content'). estimateTokenCount (cleanText t) > 8000"
    using process_items_too_large_iff [where ?'e = 'a, of "texts_of content'"] by auto
  from Inl err assms
  have "generateEmbeddings openai content' model' = (Inl (ContentTooLargeError estimate maximum), [])"
    by (simp add: generateEmbeddings_def)
  with large show ?thesis by auto
next
  case (Inr processedItems)
  then have small: "\<not> (\<exists>t \<in> set (texts_of content'). estimateTokenCount (cleanText t) > 8000)"
    using process_items_too_large_iff [where ?'e = 'a, of "texts_of content'"] by auto
  have "fst (generateEmbeddings openai content' model') \<noteq> Inl (ContentTooLargeError estimate maximum)"
    for estimate maximum
  proof -
    define m where "m = (case model' of None \<Rightarrow> defaultModel | Some m \<Rightarrow> m)"
    obtain outcome calls where e: "embed_items openai m processedItems = (outcome, calls)"
      by (cases "embed_items openai m processedItems")
    with embed_items_never_too_large [of openai m processedItems estimate maximum]
    have "outcome \<noteq> Inl (ContentTooLargeError estimate maximum)" by simp
    with Inr assms e show ?thesis
      by (cases outcome) (auto simp: generateEmbeddings_def Let_def m_def)
  qed
  with small show ?thesis by blast
qed

theorem generateEmbeddings_too_large_iff_witness:
  "client_set failing_client
   \<and> estimateTokenCount (cleanText (replicate 32004 (CHR ''a''))) = 8001
   \<and> (\<exists>estimate maximum.
          fst (generateEmbeddings failing_client (One (replicate 32004 (CHR ''a''))) None)
            = Inl (ContentTooLargeError estimate maximum))
   \<and> snd (generateEmbeddings failing_client (One (replicate 32004 (CHR ''a''))) None) = []"
proof -
  have h: "client_set failing_client" by (simp add: failing_client_def)
  have "cleanText (replicate 32004 (CHR ''a'')) = replicate 32004 (CHR ''a'')"
    by (rule cleanText_unchanged) (simp add: is_space_def)
  then have estimate: "estimateTokenCount (cleanText (replicate 32004 (CHR ''a''))) = 8001"
    by (simp add: estimateTokenCount_def)
  then have large: "\<exists>t \<in> set (texts_of (One (replicate 32004 (CHR ''a'')))).
                       estimateTokenCount (cleanText t) > 8000"
    by (simp add: texts_of_def)
  from generateEmbeddings_too_large_iff [OF h, of "One (replicate 32004 (CHR ''a''))" None] large
  have "(\<exists>estimate maximum.
          fst (generateEmbeddings failing_client (One (replicate 32004 (CHR ''a''))) None)
            = Inl (ContentTooLargeError estimate maximum))
        \<and> snd (generateEmbeddings failing_client (One (replicate 32004 (CHR ''a''))) None) = []"
    by blast
  with h estimate show ?thesis by blast
qed

text \<open>
  The claim C8 as stated fails: when the client is not initialised, a text whose estimate
  is 8001 gives the error of the missing client, not the content-too-large error.
\<close>

theorem generateEmbeddings_uninitialised_not_too_large:
  "estimateTokenCount (cleanText (replicate 32004 (CHR ''a''))) = 8001
   \<and> generateEmbeddings uninitialised_client (One (replicate 32004 (CHR ''a''))) None
       = (Inl (Error ''OpenAI client not initialized''), [])"
proof -
  have "cleanText (replicate 32004 (CHR ''a'')) = replicate 32004 (CHR ''a'')"
    by (rule cleanText_unchanged) (simp add: is_space_def)
  then show ?thesis
    by (simp add: estimateTokenCount_def generateEmbeddings_def uninitialised_client_def)
qed

section \<open>Properties of cosineSimilarity\<close>

subsection \<open>The helper functions of the rounding\<close>

lemma bit_length_nonneg: "0 \<le> bit_length n"
proof (induction n rule: bit_length.induct)
  case (1 n)
  then show ?case by (subst bit_length.simps) simp
qed

lemma bit_length_bounds:
  "0 < n \<Longrightarrow> 2 ^ nat (bit_length n - 1) \<le> n \<and> n < 2 ^ nat (bit_length n)"
proof (induction n rule: bit_length.induct)
  case (1 n)
  show ?case
  proof (cases "n = 1")
    case True
    then show ?thesis by (simp add: bit_length.simps)
  next
    case False
    with "1.prems" have half: "0 < n div 2" by simp
    define k where "k = nat (bit_length (n div 2) - 1)"
    from "1.IH" [OF _ half] "1.prems"
    have IH: "2 ^ k \<le> n div 2" "n div 2 < 2 ^ nat (bit_length (n div 2))"
      by (simp_all add: k_def)
    have pos: "0 < bit_length (n div 2)"
      using half bit_length_nonneg [of "n div 2 div 2"] by (subst bit_length.simps) simp
    then have k: "nat (bit_length (n div 2)) = Suc k" by (simp add: k_def)
    have eq: "bit_length n = bit_length (n div 2) + 1"
      using "1.prems" by (subst bit_length.simps) simp
    have e1: "nat (bit_length n - 1) = Suc k" using eq k by simp
    have e2: "nat (bit_length n) = Suc (Suc k)" using eq k pos by (simp add: nat_add_distrib)
    have "2 * 2 ^ k \<le> 2 * (n div 2)" using IH(1) by simp
    also have "\<dots> \<le> n" by simp
    finally have lo: "(2::int) ^ Suc k \<le> n" by simp
    from IH(2) k have "n div 2 + 1 \<le> 2 ^ Suc k" by simp
    then have "2 * (n div 2) + 2 \<le> 2 * 2 ^ Suc k" by simp
    moreover have "n < 2 * (n div 2) + 2" by simp
    ultimately have hi: "n < 2 ^ Suc (Suc k)" by simp
    from lo hi show ?thesis by (simp only: e1 e2)
  qed
qed

lemma isqrt_0: "isqrt 0 = 0" and isqrt_1: "isqrt 1 = 1"
  by (simp_all add: isqrt.simps)

lemma isqrt_bounds:
  "0 \<le> n \<Longrightarrow> 0 \<le> isqrt n \<and> isqrt n * isqrt n \<le> n \<and> n < (isqrt n + 1) * (isqrt n + 1)"
proof (induction n rule: isqrt.induct)
  case (1 n)
  show ?case
  proof (cases "n < 2")
    case True
    with "1.prems" consider "n = 0" | "n = 1" by linarith
    then show ?thesis
    proof cases
      case 1
      then show ?thesis by (simp add: isqrt_0)
    next
      case 2
      then show ?thesis by (simp add: isqrt_1)
    qed
  next
    case False
    define q where "q = isqrt (n div 4)"
    from "1.IH" [OF False] "1.prems" have IH: "0 \<le> q" "q * q \<le> n div 4" "n div 4 < (q + 1) * (q + 1)"
      by (simp_all add: q_def)
    have lo: "(2 * q) * (2 * q) \<le> n"
    proof -
      have "4 * (q * q) \<le> 4 * (n div 4)" using IH(2) by simp
      also have "\<dots> \<le> n" by simp
      finally show ?thesis by (simp add: algebra_simps)
    qed
    have hi: "n < (2 * q + 1 + 1) * (2 * q + 1 + 1)"
    proof -
      have "n div 4 + 1 \<le> (q + 1) * (q + 1)" using IH(3) by simp
      then have "4 * (n div 4) + 4 \<le> 4 * ((q + 1) * (q + 1))" by simp
      moreover have "n < 4 * (n div 4) + 4" by simp
      ultimately have "n < 4 * ((q + 1) * (q + 1))" by linarith
      then show ?thesis by (simp add: algebra_simps)
    qed
    have eq: "isqrt n = (if (2 * q + 1) * (2 * q + 1) \<le> n then 2 * q + 1 else 2 * q)"
      using False by (subst isqrt.simps) (simp add: q_def Let_def)
    show ?thesis
    proof (cases "(2 * q + 1) * (2 * q + 1) \<le> n")
      case True
      then have "isqrt n = 2 * q + 1" by (simp add: eq)
      with True hi IH(1) show ?thesis by simp
    next
      case False
      then have "isqrt n = 2 * q" by (simp add: eq)
      with False lo IH(1) show ?thesis by simp
    qed
  qed
qed

lemma round_half_even_nearest: "\<bar>of_int (round_half_even x) - x\<bar> \<le> 1 / 2"
proof -
  define f where "f = \<lfloor>x\<rfloor>"
  define r where "r = x - of_int f"
  have r: "0 \<le> r" "r < 1" unfolding r_def f_def by linarith+
  have x: "x = of_int f + r" by (simp add: r_def)
  consider "r < 1 / 2" | "1 / 2 < r" | "r = 1 / 2" by linarith
  then show ?thesis
  proof cases
    case 1
    then have "round_half_even x = f" by (simp add: round_half_even_def f_def r_def Let_def)
    with 1 r x show ?thesis by simp
  next
    case 2
    then have "round_half_even x = f + 1" by (simp add: round_half_even_def f_def r_def Let_def)
    with 2 r x show ?thesis by simp
  next
    case 3
    then have "round_half_even x = f \<or> round_half_even x = f + 1"
      by (simp add: round_half_even_def f_def r_def Let_def)
    with 3 x show ?thesis by auto
  qed
qed


subsection \<open>Values of double arithmetic\<close>

lemma floor_rat_numeral_div [simp]:
  "\<lfloor>numeral a / numeral b :: rat\<rfloor> = numeral a div numeral b"
  using floor_divide_of_int_eq [of "numeral a" "numeral b", where ?'a = rat] by simp

lemma ceiling_rat_numeral_div [simp]:
  "\<lceil>numeral a / numeral b :: rat\<rceil> = - (- numeral a div numeral b)"
proof -
  have "\<lceil>rat_of_int (numeral a) / rat_of_int (numeral b)\<rceil> = - \<lfloor>rat_of_int (- numeral a) / rat_of_int (numeral b)\<rfloor>"
    by (simp add: ceiling_def)
  also have "\<dots> = - (- numeral a div numeral b)"
    by (simp only: floor_divide_of_int_eq)
  finally show ?thesis by simp
qed

text \<open>
  The single operations on the way from \<open>[1, 1, 1]\<close> to its similarity to itself: the sums
  1, 2 and 3, the square root of 3, which is \<^verbatim>\<open>1.7320508075688772\<close>, its square
  \<^verbatim>\<open>2.9999999999999996\<close>, and the quotient of 3 by that.
\<close>

lemmas double_defs = round_double_def round_magnitude_def floor_log2_def bit_length.simps
  round_half_even_def pow2_def sqrt_double_def isqrt.simps Let_def










lemma cosineSimilarity_same_unit_vector:
  "cosineSimilarity double_arithmetic (Some [Finite 1, Finite 0, Finite 0])
     (Some [Finite 1, Finite 0, Finite 0]) = Finite 1"
  by (simp add: cosineSimilarity_def double_arithmetic_def number_add_def number_mul_def
        number_div_def number_sqrt_def double_defs)

lemma cosineSimilarity_orthogonal_unit_vectors:
  "cosineSimilarity double_arithmetic (Some [Finite 1, Finite 0, Finite 0])
     (Some [Finite 0, Finite 1, Finite 0]) = Finite 0"
  by (simp add: cosineSimilarity_def double_arithmetic_def number_add_def number_mul_def
        number_div_def number_sqrt_def double_defs)


subsection \<open>Symmetry and guards\<close>









end
